theory Spec2Isabelle
  imports Complex_Main
begin

section \<open>Celestia bridge exporter: a shallow embedding of celbridge\_export.go\<close>

text \<open>
  The program polls a JSON-RPC endpoint for two heights and publishes them as two
  Prometheus gauges. Everything outside the source file (the HTTP client, the JSON
  codec, the URL parser, the external \<^verbatim>\<open>celestia\<close> command, the
  listener) is a field of an environment record, so that every theorem holds for any
  behaviour of those parts. The Go type \<^verbatim>\<open>int\<close> is taken at 64 bits.
\<close>

subsection \<open>Values of Go's empty interface\<close>

text \<open>
  The dynamic values that occur in \<^verbatim>\<open>map[string]interface{}\<close>: the
  request map holds a string, an \<^verbatim>\<open>int\<close> and a slice; a decoded
  response holds nil, bool, float64, string, slices and maps. A float64 is the real
  number it denotes. A Go map is an association list read with \<^const>\<open>map_of\<close>.
\<close>

datatype iface =
    VNil
  | VBool bool
  | VInt int
  | VFloat64 real
  | VString string
  | VSlice "iface list"
  | VMap "(string \<times> iface) list"

text \<open>\<^verbatim>\<open>m[k]\<close>: a missing key reads as the nil interface.\<close>

definition map_index :: "(string \<times> iface) list \<Rightarrow> string \<Rightarrow> iface" where
  "map_index m k = (case map_of m k of None \<Rightarrow> VNil | Some v \<Rightarrow> v)"

text \<open>The type assertions \<^verbatim>\<open>x.(map[string]interface{})\<close> and
  \<^verbatim>\<open>x.(string)\<close> in their two-result form: \<open>None\<close> is \<^verbatim>\<open>ok == false\<close>.\<close>

fun assert_map :: "iface \<Rightarrow> (string \<times> iface) list option" where
  "assert_map (VMap m) = Some m"
| "assert_map _ = None"

fun assert_string :: "iface \<Rightarrow> string option" where
  "assert_string (VString s) = Some s"
| "assert_string _ = None"

subsection \<open>Errors and the log\<close>

text \<open>
  An error of a library call is its message; the error of \<^verbatim>\<open>strconv.Atoi\<close>
  is a \<^verbatim>\<open>*NumError\<close> with the function name and the offending input
  (its syntax/range kind is not recorded).
\<close>

datatype error = Err string | NumError string string

text \<open>The log records each call of the \<^verbatim>\<open>log\<close> package: the format
  string (or the line, for \<^verbatim>\<open>Println\<close>) and the arguments.\<close>

datatype arg = AErr error | AStr string

datatype logcall = Printf string "arg list" | Println string

definition NL :: string where
  "NL = [CHR 0x0A]"

subsection \<open>HTTP requests and responses\<close>

record request =
  req_method :: string
  req_url :: string
  req_body :: string
  req_header :: "(string \<times> string list) list"

text \<open>\<open>ReadAll_Body\<close> is what \<^verbatim>\<open>ioutil.ReadAll(resp.Body)\<close> returns.\<close>

record response =
  StatusCode :: int
  Status :: string
  ReadAll_Body :: "error + string"

definition StatusOK :: int where
  "StatusOK = 200"

text \<open>\<^verbatim>\<open>Header.Set\<close> replaces the values stored under the key. The two
  keys the program sets are already in canonical form.\<close>

fun Header_Set :: "string \<Rightarrow> string \<Rightarrow> (string \<times> string list) list \<Rightarrow> (string \<times> string list) list" where
  "Header_Set k v [] = [(k, [v])]"
| "Header_Set k v ((k', vs) # h) =
     (if k' = k then (k, [v]) # h else (k', vs) # Header_Set k v h)"

subsection \<open>The external command\<close>

text \<open>
  A run of the external command is the sequence of its writes, each to standard output
  or to standard error, and its exit error (\<open>None\<close> for exit status 0; an error for a
  non-zero status or a command that could not be started).
  \<^verbatim>\<open>CombinedOutput\<close> gives both streams one buffer, so it returns the
  writes in the order they were made.
\<close>

datatype stream = Stdout | Stderr

record proc =
  writes :: "(stream \<times> string) list"
  exit_err :: "error option"

definition stdout_of :: "proc \<Rightarrow> string" where
  "stdout_of p = concat (map snd (filter (\<lambda>w. fst w = Stdout) (writes p)))"

definition CombinedOutput :: "proc \<Rightarrow> string \<times> error option" where
  "CombinedOutput p = (concat (map snd (writes p)), exit_err p)"

subsection \<open>The environment and the state\<close>

text \<open>
  \<open>'w\<close> is the state of the world outside the process (the node that answers the RPC
  calls): \<open>client_Do\<close> reads and changes it, so that two equal requests may be
  answered differently.
  \<open>json_Unmarshal\<close> is \<^verbatim>\<open>json.Unmarshal\<close> into a
  \<^verbatim>\<open>map[string]interface{}\<close> (a map left nil reads as the empty map).
  \<open>ListenAndServe\<close> gives the error it returns, or \<open>None\<close> when it binds the
  address and serves for ever.
\<close>

record 'w env =
  exec_Command :: "string list \<Rightarrow> proc"
  url_Parse :: "string \<Rightarrow> error option"
  json_Marshal :: "iface \<Rightarrow> string"
  json_Unmarshal :: "string \<Rightarrow> error + (string \<times> iface) list"
  client_Do :: "request \<Rightarrow> 'w \<Rightarrow> (error + response) \<times> 'w"
  ListenAndServe :: "string \<Rightarrow> error option"

text \<open>
  The two gauges are process-wide variables. \<open>sent\<close> and \<open>execs\<close> are the
  traces of the requests handed to \<^verbatim>\<open>client.Do\<close> and of the commands run.
\<close>

record 'w state =
  world :: 'w
  localHeight :: real
  networkHeight :: real
  logs :: "logcall list"
  sent :: "request list"
  execs :: "string list list"

definition log_Printf :: "string \<Rightarrow> arg list \<Rightarrow> 'w state \<Rightarrow> 'w state" where
  "log_Printf fmt args s = s\<lparr>logs := logs s @ [Printf fmt args]\<rparr>"

definition log_Println :: "string \<Rightarrow> 'w state \<Rightarrow> 'w state" where
  "log_Println line s = s\<lparr>logs := logs s @ [Println line]\<rparr>"

subsection \<open>Library functions with a fixed meaning\<close>

text \<open>\<^verbatim>\<open>strconv.Atoi\<close> at 64 bits: an optional sign, then one or more
  decimal digits, and the value within the range of \<^verbatim>\<open>int\<close>.\<close>

definition is_digit :: "char \<Rightarrow> bool" where
  "is_digit c = (48 \<le> (of_char c :: int) \<and> (of_char c :: int) \<le> 57)"

fun digits_val :: "int \<Rightarrow> string \<Rightarrow> int option" where
  "digits_val acc [] = Some acc"
| "digits_val acc (c # cs) =
     (if is_digit c then digits_val (acc * 10 + (of_char c - 48)) cs else None)"

definition Atoi :: "string \<Rightarrow> error + int" where
  "Atoi s =
     (case s of
        [] \<Rightarrow> Inl (NumError ''Atoi'' s)
      | c # cs \<Rightarrow>
          (let ds = (if c = CHR ''-'' \<or> c = CHR ''+'' then cs else s) in
           if ds = [] then Inl (NumError ''Atoi'' s)
           else
             (case digits_val 0 ds of
                None \<Rightarrow> Inl (NumError ''Atoi'' s)
              | Some u \<Rightarrow>
                  (let v = (if c = CHR ''-'' then - u else u) in
                   if v < - (2 ^ 63) \<or> 2 ^ 63 - 1 < v then Inl (NumError ''Atoi'' s)
                   else Inr v))))"

text \<open>
  The conversion \<^verbatim>\<open>float64(n)\<close> of a 64-bit integer: exact below \<open>2^53\<close>,
  rounded to the nearest value with a 53-bit significand (ties to even) above.
\<close>

function bitlen :: "int \<Rightarrow> nat" where
  "bitlen n = (if n \<le> 0 then 0 else Suc (bitlen (n div 2)))"
  by pat_completeness auto

termination bitlen
  by (relation "measure nat") auto

declare bitlen.simps [simp del]

definition float64 :: "int \<Rightarrow> real" where
  "float64 n =
     (let a = \<bar>n\<bar> in
      if a < 2 ^ 53 then of_int n
      else
        (let e = bitlen a - 53;
             q = a div 2 ^ e;
             r = a mod 2 ^ e;
             h = 2 ^ (e - 1);
             q' = (if h < r \<or> (r = h \<and> odd q) then q + 1 else q)
         in of_int (sgn n * (q' * 2 ^ e))))"

text \<open>
  \<^verbatim>\<open>strings.TrimSpace\<close> on the bytes of a UTF-8 string: the white space of
  Unicode, each code point as its encoding. A byte sequence that is not one of these is
  not white space (an invalid byte decodes to U+FFFD).
\<close>

definition space_runes :: "string list" where
  "space_runes =
     [[CHR 0x09], [CHR 0x0A], [CHR 0x0B], [CHR 0x0C], [CHR 0x0D], [CHR 0x20],
      [CHR 0xC2, CHR 0x85], [CHR 0xC2, CHR 0xA0],
      [CHR 0xE1, CHR 0x9A, CHR 0x80],
      [CHR 0xE2, CHR 0x80, CHR 0x80], [CHR 0xE2, CHR 0x80, CHR 0x81],
      [CHR 0xE2, CHR 0x80, CHR 0x82], [CHR 0xE2, CHR 0x80, CHR 0x83],
      [CHR 0xE2, CHR 0x80, CHR 0x84], [CHR 0xE2, CHR 0x80, CHR 0x85],
      [CHR 0xE2, CHR 0x80, CHR 0x86], [CHR 0xE2, CHR 0x80, CHR 0x87],
      [CHR 0xE2, CHR 0x80, CHR 0x88], [CHR 0xE2, CHR 0x80, CHR 0x89],
      [CHR 0xE2, CHR 0x80, CHR 0x8A],
      [CHR 0xE2, CHR 0x80, CHR 0xA8], [CHR 0xE2, CHR 0x80, CHR 0xA9],
      [CHR 0xE2, CHR 0x80, CHR 0xAF], [CHR 0xE2, CHR 0x81, CHR 0x9F],
      [CHR 0xE3, CHR 0x80, CHR 0x80]]"

text \<open>The width in bytes of the white-space code point a string starts with (0: none).\<close>

definition leading_space :: "string list \<Rightarrow> string \<Rightarrow> nat" where
  "leading_space runes s =
     (case find (\<lambda>p. take (length p) s = p) runes of
        None \<Rightarrow> 0
      | Some p \<Rightarrow> length p)"

function trim_left :: "string list \<Rightarrow> string \<Rightarrow> string" where
  "trim_left runes s =
     (if leading_space runes s = 0 then s
      else trim_left runes (drop (leading_space runes s) s))"
  by pat_completeness auto

lemma leading_space_le: "leading_space runes s \<le> length s"
proof (cases "find (\<lambda>p. take (length p) s = p) runes")
  case None
  then show ?thesis by (simp add: leading_space_def)
next
  case (Some p)
  then have "take (length p) s = p"
    by (auto simp: find_Some_iff)
  then have "min (length s) (length p) = length p"
    using length_take [of "length p" s] by simp
  then have "length p \<le> length s"
    by arith
  with Some show ?thesis by (simp add: leading_space_def)
qed

termination trim_left
proof (relation "measure (\<lambda>(runes, s). length s)")
  show "wf (measure (\<lambda>(runes, s). length s))" by simp
next
  fix runes :: "string list" and s :: string
  assume "leading_space runes s \<noteq> 0"
  moreover have "leading_space runes s \<le> length s" by (rule leading_space_le)
  ultimately show "((runes, drop (leading_space runes s) s), (runes, s))
      \<in> measure (\<lambda>(runes, s). length s)"
    by simp
qed

declare trim_left.simps [simp del]

definition TrimLeft :: "string \<Rightarrow> string" where
  "TrimLeft s = trim_left space_runes s"

definition TrimRight :: "string \<Rightarrow> string" where
  "TrimRight s = rev (trim_left (map rev space_runes) (rev s))"

definition TrimSpace :: "string \<Rightarrow> string" where
  "TrimSpace s = TrimRight (TrimLeft s)"

subsection \<open>The poller: getHeight, getHeights, updateMetrics\<close>

text \<open>\<^verbatim>\<open>http.NewRequest\<close> with a valid method fails exactly when the URL does
  not parse; the new request has no header yet.\<close>

definition http_NewRequest :: "'w env \<Rightarrow> string \<Rightarrow> string \<Rightarrow> string \<Rightarrow> error + request" where
  "http_NewRequest env method url body =
     (case url_Parse env url of
        Some err \<Rightarrow> Inl err
      | None \<Rightarrow> Inr \<lparr>req_method = method, req_url = url, req_body = body, req_header = []\<rparr>)"

text \<open>
  \<^verbatim>\<open>getHeight\<close> (lines 79 to 144), branch by branch. The result is the
  returned \<^verbatim>\<open>int\<close> and the state after the call.
\<close>

definition getHeight :: "'w env \<Rightarrow> string \<Rightarrow> string \<Rightarrow> string \<Rightarrow> 'w state \<Rightarrow> int \<times> 'w state" where
  "getHeight env authToken method endpoint s =
     (let reqData = VMap [(''jsonrpc'', VString ''2.0''), (''id'', VInt 1),
                          (''method'', VString method), (''params'', VSlice [])];
          reqBytes = json_Marshal env reqData
      in case http_NewRequest env ''POST'' endpoint reqBytes of
           Inl err \<Rightarrow> (0, log_Printf (''Error creating request: %v'' @ NL) [AErr err] s)
         | Inr req0 \<Rightarrow>
             (let req1 = req0\<lparr>req_header := Header_Set ''Content-Type'' ''application/json'' (req_header req0)\<rparr>;
                  req = req1\<lparr>req_header := Header_Set ''Authorization'' (''Bearer '' @ authToken) (req_header req1)\<rparr>;
                  ans = client_Do env req (world s);
                  s1 = s\<lparr>world := snd ans, sent := sent s @ [req]\<rparr>
              in case fst ans of
                   Inl err \<Rightarrow> (0, log_Printf (''Error executing request: %v'' @ NL) [AErr err] s1)
                 | Inr resp \<Rightarrow>
                     if StatusCode resp \<noteq> StatusOK
                     then (0, log_Printf (''Non-OK HTTP status: %v'' @ NL) [AStr (Status resp)] s1)
                     else
                       (case ReadAll_Body resp of
                          Inl err \<Rightarrow> (0, log_Printf (''Error reading response body: %v'' @ NL) [AErr err] s1)
                        | Inr respBytes \<Rightarrow>
                            (case json_Unmarshal env respBytes of
                               Inl err \<Rightarrow> (0, log_Printf (''Error unmarshaling response: %v'' @ NL) [AErr err] s1)
                             | Inr respData \<Rightarrow>
                                 (case assert_map (map_index respData ''result'') of
                                    None \<Rightarrow> (0, log_Println ''Error: result is not a map'' s1)
                                  | Some result \<Rightarrow>
                                      (case assert_map (map_index result ''header'') of
                                         None \<Rightarrow> (0, log_Println ''Error: header is not a map'' s1)
                                       | Some header \<Rightarrow>
                                           (case assert_string (map_index header ''height'') of
                                              None \<Rightarrow> (0, log_Println ''Error: height is not a string'' s1)
                                            | Some heightStr \<Rightarrow>
                                                (case Atoi heightStr of
                                                   Inl err \<Rightarrow> (0, log_Printf (''Error converting height to int: %v'' @ NL) [AErr err] s1)
                                                 | Inr height \<Rightarrow> (height, s1)))))))))"

text \<open>The request that lines 80 to 94 build and line 96 hands to the client.\<close>

definition rpc_request :: "'w env \<Rightarrow> string \<Rightarrow> string \<Rightarrow> string \<Rightarrow> request" where
  "rpc_request env authToken method endpoint =
     \<lparr>req_method = ''POST'', req_url = endpoint,
      req_body = json_Marshal env
        (VMap [(''jsonrpc'', VString ''2.0''), (''id'', VInt 1),
               (''method'', VString method), (''params'', VSlice [])]),
      req_header = [(''Content-Type'', [''application/json'']),
                    (''Authorization'', [''Bearer '' @ authToken])]\<rparr>"

text \<open>\<^verbatim>\<open>getHeights\<close> (lines 72 to 77): the two calls in sequence, and the
  error it returns.\<close>

definition getHeights :: "'w env \<Rightarrow> string \<Rightarrow> string \<Rightarrow> 'w state \<Rightarrow> (int \<times> int \<times> error option) \<times> 'w state" where
  "getHeights env authToken endpoint s =
     (let l = getHeight env authToken ''header.LocalHead'' endpoint s;
          n = getHeight env authToken ''header.NetworkHead'' endpoint (snd l)
      in ((fst l, fst n, None), snd n))"

text \<open>\<^verbatim>\<open>updateMetrics\<close> (lines 61 to 70).\<close>

definition updateMetrics :: "'w env \<Rightarrow> string \<Rightarrow> string \<Rightarrow> 'w state \<Rightarrow> 'w state" where
  "updateMetrics env authToken endpoint s =
     (case getHeights env authToken endpoint s of
        ((local, network, err), s') \<Rightarrow>
          (case err of
             Some e \<Rightarrow> log_Printf (''Error getting heights: %v'' @ NL) [AErr e] s'
           | None \<Rightarrow> s'\<lparr>localHeight := float64 local, networkHeight := float64 network\<rparr>))"

subsection \<open>The credential\<close>

text \<open>\<^verbatim>\<open>getAuthToken\<close> (lines 146 to 154).\<close>

definition auth_argv :: "string \<Rightarrow> string list" where
  "auth_argv p2pNetwork =
     [''celestia'', ''bridge'', ''auth'', ''admin'', ''--p2p.network'', p2pNetwork]"

definition getAuthToken :: "'w env \<Rightarrow> string \<Rightarrow> 'w state \<Rightarrow> string \<times> 'w state" where
  "getAuthToken env p2pNetwork s =
     (let ran = CombinedOutput (exec_Command env (auth_argv p2pNetwork));
          s1 = s\<lparr>execs := execs s @ [auth_argv p2pNetwork]\<rparr>
      in case snd ran of
           Some err \<Rightarrow>
             ([], log_Printf (''Error getting auth token: %v, output: %s'' @ NL)
                      [AErr err, AStr (fst ran)] s1)
         | None \<Rightarrow> (TrimSpace (fst ran), s1))"

subsection \<open>main\<close>

record flags =
  listenPort :: string
  endpoint :: string
  p2pNetwork :: string

definition default_flags :: flags where
  "default_flags =
     \<lparr>listenPort = ''8380'', endpoint = ''http://localhost:26658'',
      p2pNetwork = ''blockspacerace''\<rparr>"

text \<open>
  The goroutine of lines 48 to 55: the token is fetched, then the loop runs for ever.
  \<open>poller_loop n\<close> is the state after \<open>n\<close> iterations of the loop
  (\<^verbatim>\<open>time.Sleep\<close> changes nothing of the state), and \<open>poller n\<close> the state of
  the goroutine after \<open>n\<close> iterations.
\<close>

primrec poller_loop :: "'w env \<Rightarrow> string \<Rightarrow> string \<Rightarrow> nat \<Rightarrow> 'w state \<Rightarrow> 'w state" where
  "poller_loop env authToken ep 0 s = s"
| "poller_loop env authToken ep (Suc n) s =
     poller_loop env authToken ep n (updateMetrics env authToken ep s)"

definition poller :: "'w env \<Rightarrow> flags \<Rightarrow> nat \<Rightarrow> 'w state \<Rightarrow> 'w state" where
  "poller env fl n s =
     (let t = getAuthToken env (p2pNetwork fl) s
      in poller_loop env (fst t) (endpoint fl) n (snd t))"

text \<open>
  The default \<^verbatim>\<open>ServeMux\<close> of net/http is the list of its registered
  patterns with their handlers. \<^verbatim>\<open>Handle\<close> panics on an empty pattern and on
  a pattern that is registered already (``http: multiple registrations for'' the
  pattern; since Go 1.22 the message speaks of a conflict between the two patterns).
  Both handlers of \<^verbatim>\<open>main\<close> are non-nil.
\<close>

datatype handler = PromHandler | PromHandlerFunc

type_synonym ServeMux = "(string \<times> handler) list"

definition http_Handle :: "string \<Rightarrow> handler \<Rightarrow> ServeMux \<Rightarrow> string + ServeMux" where
  "http_Handle pattern h mux =
     (if pattern = [] then Inl ''http: invalid pattern''
      else if pattern \<in> set (map fst mux)
      then Inl (''http: multiple registrations for '' @ pattern)
      else Inr (mux @ [(pattern, h)]))"

text \<open>\<^verbatim>\<open>http.HandleFunc\<close> wraps the function and calls \<^verbatim>\<open>Handle\<close>.\<close>

definition http_HandleFunc :: "string \<Rightarrow> handler \<Rightarrow> ServeMux \<Rightarrow> string + ServeMux" where
  "http_HandleFunc pattern f mux = http_Handle pattern f mux"

text \<open>
  The process: the mux, the patterns handed to \<^verbatim>\<open>Handle\<close> and
  \<^verbatim>\<open>HandleFunc\<close> so far, whether the poller goroutine has been started, the
  address the listener is bound to, and the state the poller works on.
\<close>

record 'w process =
  mux :: ServeMux
  handle_calls :: "string list"
  poller_started :: bool
  listening :: "string option"
  pstate :: "'w state"

text \<open>The process when \<^verbatim>\<open>main\<close> is entered: an empty mux, both gauges new
  (a new gauge reads 0).\<close>

definition process_start :: "'w \<Rightarrow> 'w process" where
  "process_start w =
     \<lparr>mux = [], handle_calls = [], poller_started = False, listening = None,
      pstate = \<lparr>world = w, localHeight = 0, networkHeight = 0, logs = [], sent = [],
                execs = []\<rparr>\<rparr>"

datatype exit = Panic string | Fatal error | Serving

text \<open>
  \<^verbatim>\<open>main\<close> (lines 37 to 59) on the parsed flags. It ends in a panic, in
  \<^verbatim>\<open>log.Fatal\<close> when the listener cannot be bound, or it serves for ever.
\<close>

definition main :: "'w env \<Rightarrow> flags \<Rightarrow> 'w process \<Rightarrow> exit \<times> 'w process" where
  "main env fl p =
     (let p1 = p\<lparr>handle_calls := handle_calls p @ [''/metrics'']\<rparr> in
      case http_Handle ''/metrics'' PromHandler (mux p1) of
        Inl msg \<Rightarrow> (Panic msg, p1)
      | Inr m1 \<Rightarrow>
          (let p2 = p1\<lparr>mux := m1, handle_calls := handle_calls p1 @ [''/metrics'']\<rparr> in
           case http_HandleFunc ''/metrics'' PromHandlerFunc (mux p2) of
             Inl msg \<Rightarrow> (Panic msg, p2)
           | Inr m2 \<Rightarrow>
               (let p3 = p2\<lparr>mux := m2, poller_started := True\<rparr>;
                    p4 = p3\<lparr>pstate := log_Printf (''Celestia Bridge Exporter started on port %s'' @ NL)
                                         [AStr (listenPort fl)] (pstate p3)\<rparr>
                in case ListenAndServe env ('':'' @ listenPort fl) of
                     Some err \<Rightarrow> (Fatal err, p4)
                   | None \<Rightarrow> (Serving, p4\<lparr>listening := Some ('':'' @ listenPort fl)\<rparr>))))"

subsection \<open>Example environments\<close>

text \<open>
  A node whose answer to the \<open>k\<close>-th request is \<open>answers k\<close> (the world is the
  number of requests answered so far), with a decoder that knows the bodies
  \<^verbatim>\<open>{"result":{"header":{"height":"<h>"}}}\<close> for three heights, and a
  command that behaves as \<open>cmd\<close>.
\<close>

definition quoted :: "string \<Rightarrow> string" where
  "quoted s = CHR 0x22 # s @ [CHR 0x22]"

definition height_body :: "string \<Rightarrow> string" where
  "height_body h =
     ''{'' @ quoted ''result'' @ '':{'' @ quoted ''header'' @ '':{'' @ quoted ''height''
       @ '':'' @ quoted h @ ''}}}''"

definition height_doc :: "string \<Rightarrow> (string \<times> iface) list" where
  "height_doc h = [(''result'', VMap [(''header'', VMap [(''height'', VString h)])])]"

definition decode_example :: "string \<Rightarrow> error + (string \<times> iface) list" where
  "decode_example b =
     (case map_of [(height_body ''12345'', height_doc ''12345''),
                   (height_body ''100'', height_doc ''100''),
                   (height_body ''105'', height_doc ''105'')] b of
        None \<Rightarrow> Inl (Err ''invalid character'')
      | Some doc \<Rightarrow> Inr doc)"

definition ok_response :: "string \<Rightarrow> response" where
  "ok_response b = \<lparr>StatusCode = 200, Status = ''200 OK'', ReadAll_Body = Inr b\<rparr>"

definition node_env :: "(nat \<Rightarrow> error + response) \<Rightarrow> proc \<Rightarrow> nat env" where
  "node_env answers cmd =
     \<lparr>exec_Command = (\<lambda>argv. cmd),
      url_Parse = (\<lambda>u. None),
      json_Marshal = (\<lambda>v. ''{}''),
      json_Unmarshal = decode_example,
      client_Do = (\<lambda>req k. (answers k, Suc k)),
      ListenAndServe = (\<lambda>addr. None)\<rparr>"

text \<open>A command that prints a token and exits with status 0; one that also warns on
  standard error; and one that fails.\<close>

definition cmd_ok :: proc where
  "cmd_ok = \<lparr>writes = [(Stdout, ''secret'' @ NL)], exit_err = None\<rparr>"

definition cmd_warns :: proc where
  "cmd_warns =
     \<lparr>writes = [(Stderr, ''warning: config not found'' @ NL), (Stdout, ''secret'' @ NL)],
      exit_err = None\<rparr>"

definition cmd_fails :: proc where
  "cmd_fails =
     \<lparr>writes = [(Stderr, ''Error: keyring not found'' @ NL)],
      exit_err = Some (Err ''exit status 1'')\<rparr>"

text \<open>The poller's state in a new process.\<close>

definition state0 :: "nat state" where
  "state0 = pstate (process_start 0)"

text \<open>A node that answers the two requests of the first poll with height 100 and
  refuses every later connection; and one that answers the first poll with height 100
  and the second with 105.\<close>

definition node_100_then_down :: "nat env" where
  "node_100_then_down =
     node_env (\<lambda>k. if k < 2 then Inr (ok_response (height_body ''100''))
                    else Inl (Err ''connection refused'')) cmd_ok"

definition node_100_then_105 :: "nat env" where
  "node_100_then_105 =
     node_env (\<lambda>k. if k < 2 then Inr (ok_response (height_body ''100''))
                    else Inr (ok_response (height_body ''105''))) cmd_ok"

text \<open>A node that answers every request with height 12345; one that answers every
  request with status 404; and two nodes that refuse every connection, on a machine
  where the credential command fails, or warns and succeeds.\<close>

definition node_12345 :: "nat env" where
  "node_12345 = node_env (\<lambda>k. Inr (ok_response (height_body ''12345''))) cmd_ok"

definition node_404 :: "nat env" where
  "node_404 =
     node_env (\<lambda>k. Inr \<lparr>StatusCode = 404, Status = ''404 Not Found'', ReadAll_Body = Inr []\<rparr>)
       cmd_ok"

definition node_without_credential :: "nat env" where
  "node_without_credential = node_env (\<lambda>k. Inl (Err ''connection refused'')) cmd_fails"

definition node_with_warning :: "nat env" where
  "node_with_warning = node_env (\<lambda>k. Inl (Err ''connection refused'')) cmd_warns"

section \<open>Properties\<close>

subsection \<open>TrimSpace\<close>

text \<open>What is left after trimming starts with no white-space code point, ends with
  none, and is a contiguous part of the input.\<close>

lemma trim_left_no_leading_space: "leading_space runes (trim_left runes s) = 0"
proof (induction runes s rule: trim_left.induct)
  case (1 runes s)
  show ?case
  proof (cases "leading_space runes s = 0")
    case True
    then show ?thesis by (subst trim_left.simps) simp
  next
    case False
    with "1.IH" show ?thesis by (subst trim_left.simps) simp
  qed
qed

lemma trim_left_is_suffix: "\<exists>p. s = p @ trim_left runes s"
proof (induction runes s rule: trim_left.induct)
  case (1 runes s)
  show ?case
  proof (cases "leading_space runes s = 0")
    case True
    then show ?thesis by (subst trim_left.simps) simp
  next
    case False
    with "1.IH" obtain p where p: "drop (leading_space runes s) s = p @ trim_left runes (drop (leading_space runes s) s)"
      by blast
    have "s = take (leading_space runes s) s @ drop (leading_space runes s) s"
      by simp
    with p have "s = (take (leading_space runes s) s @ p) @ trim_left runes (drop (leading_space runes s) s)"
      by simp
    with False show ?thesis
      by (subst trim_left.simps) (simp del: append_assoc, blast)
  qed
qed

lemma TrimSpace_is_infix: "\<exists>p q. s = p @ TrimSpace s @ q"
proof -
  obtain p where p: "s = p @ TrimLeft s"
    unfolding TrimLeft_def using trim_left_is_suffix by blast
  obtain q where q: "rev (TrimLeft s) = q @ trim_left (map rev space_runes) (rev (TrimLeft s))"
    using trim_left_is_suffix by blast
  have "TrimLeft s = rev (rev (TrimLeft s))" by simp
  also have "\<dots> = rev (q @ trim_left (map rev space_runes) (rev (TrimLeft s)))"
    using q by simp
  also have "\<dots> = TrimSpace s @ rev q"
    by (simp add: TrimSpace_def TrimRight_def)
  finally have "s = p @ TrimSpace s @ rev q"
    using p by simp
  then show ?thesis by blast
qed

lemma TrimSpace_no_trailing_space:
  "leading_space (map rev space_runes) (rev (TrimSpace s)) = 0"
  by (simp add: TrimSpace_def TrimRight_def trim_left_no_leading_space)

subsection \<open>What a call of getHeight leaves untouched, and what it sends\<close>

lemmas getHeight_unfold =
  getHeight_def http_NewRequest_def Let_def log_Printf_def log_Println_def

lemma getHeight_localHeight [simp]:
  "localHeight (snd (getHeight env a m e s)) = localHeight s"
  by (simp add: getHeight_unfold split: sum.splits option.splits)

lemma getHeight_networkHeight [simp]:
  "networkHeight (snd (getHeight env a m e s)) = networkHeight s"
  by (simp add: getHeight_unfold split: sum.splits option.splits)

lemma getHeight_execs [simp]:
  "execs (snd (getHeight env a m e s)) = execs s"
  by (simp add: getHeight_unfold split: sum.splits option.splits)

lemma getHeight_sent:
  "sent (snd (getHeight env a m e s)) =
     sent s @ (case url_Parse env e of Some err \<Rightarrow> [] | None \<Rightarrow> [rpc_request env a m e])"
  by (cases "url_Parse env e")
    (auto simp: getHeight_unfold rpc_request_def split: sum.splits option.splits)

lemma getHeights_sent:
  "sent (snd (getHeights env a e s)) =
     sent s @
     (case url_Parse env e of
        Some err \<Rightarrow> []
      | None \<Rightarrow> [rpc_request env a ''header.LocalHead'' e,
                  rpc_request env a ''header.NetworkHead'' e])"
  by (simp add: getHeights_def Let_def getHeight_sent split: option.splits)

lemma updateMetrics_eq:
  "updateMetrics env a e s =
     (snd (getHeights env a e s))
       \<lparr>localHeight := float64 (fst (getHeight env a ''header.LocalHead'' e s)),
        networkHeight := float64 (fst (getHeight env a ''header.NetworkHead'' e
                                        (snd (getHeight env a ''header.LocalHead'' e s))))\<rparr>"
  by (simp add: updateMetrics_def getHeights_def Let_def)

lemma updateMetrics_sent:
  "sent (updateMetrics env a e s) = sent (snd (getHeights env a e s))"
  by (simp add: updateMetrics_eq)

lemma updateMetrics_execs [simp]:
  "execs (updateMetrics env a e s) = execs s"
  by (simp add: updateMetrics_eq getHeights_def Let_def)

subsection \<open>The error of getHeights, the registrations of main, the requests\<close>

text \<open>
  C3. getHeights returns a nil error whatever its arguments are. So updateMetrics
  never takes its error branch: it sets both gauges, to the values the two getHeight
  calls returned, and logs nothing of its own.
\<close>

theorem getHeights_error_is_nil:
  "snd (snd (fst (getHeights env a e s))) = None \<and>
   updateMetrics env a e s =
     (snd (getHeights env a e s))
       \<lparr>localHeight := float64 (fst (fst (getHeights env a e s))),
        networkHeight := float64 (fst (snd (fst (getHeights env a e s))))\<rparr> \<and>
   fst (fst (getHeights env a e s)) = fst (getHeight env a ''header.LocalHead'' e s) \<and>
   fst (snd (fst (getHeights env a e s))) =
     fst (getHeight env a ''header.NetworkHead'' e (snd (getHeight env a ''header.LocalHead'' e s))) \<and>
   logs (updateMetrics env a e s) = logs (snd (getHeights env a e s))"
  by (simp add: updateMetrics_def getHeights_def Let_def)

text \<open>
  C4. In every run main hands the pattern /metrics to the default mux twice, first
  through http.Handle and then through http.HandleFunc. The second registration
  panics; at that point the poller goroutine has not been started and no listener is
  bound.
\<close>

theorem main_registers_metrics_twice_and_panics:
  "fst (main env fl (process_start w)) = Panic ''http: multiple registrations for /metrics'' \<and>
   handle_calls (snd (main env fl (process_start w))) = [''/metrics'', ''/metrics''] \<and>
   mux (snd (main env fl (process_start w))) = [(''/metrics'', PromHandler)] \<and>
   poller_started (snd (main env fl (process_start w))) = False \<and>
   listening (snd (main env fl (process_start w))) = None \<and>
   pstate (snd (main env fl (process_start w))) = pstate (process_start w)"
  by (simp add: main_def process_start_def http_Handle_def http_HandleFunc_def Let_def)

text \<open>
  C2. The code does not do this. With the default flags main ends in the panic
  of the second registration: the listener is never bound, so no request to /metrics
  is ever answered, although both gauges exist and read 0.
\<close>

theorem default_run_never_listens:
  "fst (main env default_flags (process_start w)) \<noteq> Serving \<and>
   listening (snd (main env default_flags (process_start w))) = None \<and>
   localHeight (pstate (snd (main env default_flags (process_start w)))) = 0 \<and>
   networkHeight (pstate (snd (main env default_flags (process_start w)))) = 0"
  by (simp add: main_def process_start_def http_Handle_def http_HandleFunc_def Let_def)

text \<open>
  C10. Every request getHeight sends is a POST to the endpoint whose body is the
  encoding of the object with jsonrpc "2.0", id 1, the method and an empty params
  list, with the headers Content-Type: application/json and Authorization: Bearer
  followed by the token; getHeights sends two of them, for header.LocalHead and then
  header.NetworkHead. (Nothing is sent when the endpoint does not parse as a URL.)
\<close>

theorem rpc_request_shape:
  "sent (snd (getHeight env authToken method ep s)) =
     sent s @
     (case url_Parse env ep of
        Some err \<Rightarrow> []
      | None \<Rightarrow>
          [\<lparr>req_method = ''POST'', req_url = ep,
            req_body = json_Marshal env
              (VMap [(''jsonrpc'', VString ''2.0''), (''id'', VInt 1),
                     (''method'', VString method), (''params'', VSlice [])]),
            req_header = [(''Content-Type'', [''application/json'']),
                          (''Authorization'', [''Bearer '' @ authToken])]\<rparr>]) \<and>
   map (\<lambda>r. (req_method r, req_url r, req_header r)) (sent (snd (getHeights env authToken ep s))) =
     map (\<lambda>r. (req_method r, req_url r, req_header r)) (sent s) @
     (case url_Parse env ep of
        Some err \<Rightarrow> []
      | None \<Rightarrow>
          replicate 2
            (''POST'', ep,
             [(''Content-Type'', [''application/json'']),
              (''Authorization'', [''Bearer '' @ authToken])])) \<and>
   map req_body (sent (snd (getHeights env authToken ep s))) =
     map req_body (sent s) @
     (case url_Parse env ep of
        Some err \<Rightarrow> []
      | None \<Rightarrow>
          map (\<lambda>m. json_Marshal env
                 (VMap [(''jsonrpc'', VString ''2.0''), (''id'', VInt 1),
                        (''method'', VString m), (''params'', VSlice [])]))
            [''header.LocalHead'', ''header.NetworkHead''])"
  by (simp add: getHeights_sent getHeight_sent rpc_request_def numeral_2_eq_2 split: option.splits)

text \<open>
  C1. The code does not keep this. A poll that succeeds with height 100 for both
  calls, followed by a poll whose two requests fail in transport: after the first poll
  both gauges read 100, after the second both read 0.
\<close>

theorem failed_poll_resets_gauges:
  "localHeight (updateMetrics node_100_then_down ''secret'' ''http://localhost:26658'' state0) = 100 \<and>
   networkHeight (updateMetrics node_100_then_down ''secret'' ''http://localhost:26658'' state0) = 100 \<and>
   localHeight (updateMetrics node_100_then_down ''secret'' ''http://localhost:26658''
      (updateMetrics node_100_then_down ''secret'' ''http://localhost:26658'' state0)) = 0 \<and>
   networkHeight (updateMetrics node_100_then_down ''secret'' ''http://localhost:26658''
      (updateMetrics node_100_then_down ''secret'' ''http://localhost:26658'' state0)) = 0"
  by (simp add: updateMetrics_def getHeights_def getHeight_unfold node_100_then_down_def
      node_env_def state0_def process_start_def ok_response_def StatusOK_def
      decode_example_def height_body_def height_doc_def quoted_def map_index_def Atoi_def
      is_digit_def float64_def)

subsection \<open>The branches of getHeight\<close>

lemma assert_map_index:
  "assert_map (map_index m k) = Some r \<longleftrightarrow> map_of m k = Some (VMap r)"
  by (cases "map_of m k"; cases "the (map_of m k)") (auto simp: map_index_def)

lemma assert_string_index:
  "assert_string (map_index m k) = Some x \<longleftrightarrow> map_of m k = Some (VString x)"
  by (cases "map_of m k"; cases "the (map_of m k)") (auto simp: map_index_def)

lemma getHeight_request:
  "url_Parse env e = None \<Longrightarrow>
   http_NewRequest env ''POST'' e
     (json_Marshal env (VMap [(''jsonrpc'', VString ''2.0''), (''id'', VInt 1),
                             (''method'', VString m), (''params'', VSlice [])])) =
   Inr ((rpc_request env a m e)\<lparr>req_header := []\<rparr>)"
  by (simp add: http_NewRequest_def rpc_request_def)

lemma getHeight_NewRequest_fails:
  "url_Parse env e = Some err \<Longrightarrow>
   getHeight env a m e s = (0, log_Printf (''Error creating request: %v'' @ NL) [AErr err] s)"
  by (simp add: getHeight_def http_NewRequest_def)

lemma getHeight_after_Do:
  assumes "url_Parse env e = None"
  shows "getHeight env a m e s =
     (let ans = client_Do env (rpc_request env a m e) (world s);
          s1 = s\<lparr>world := snd ans, sent := sent s @ [rpc_request env a m e]\<rparr>
      in case fst ans of
           Inl err \<Rightarrow> (0, log_Printf (''Error executing request: %v'' @ NL) [AErr err] s1)
         | Inr resp \<Rightarrow>
             if StatusCode resp \<noteq> StatusOK
             then (0, log_Printf (''Non-OK HTTP status: %v'' @ NL) [AStr (Status resp)] s1)
             else
               (case ReadAll_Body resp of
                  Inl err \<Rightarrow> (0, log_Printf (''Error reading response body: %v'' @ NL) [AErr err] s1)
                | Inr respBytes \<Rightarrow>
                    (case json_Unmarshal env respBytes of
                       Inl err \<Rightarrow> (0, log_Printf (''Error unmarshaling response: %v'' @ NL) [AErr err] s1)
                     | Inr respData \<Rightarrow>
                         (case assert_map (map_index respData ''result'') of
                            None \<Rightarrow> (0, log_Println ''Error: result is not a map'' s1)
                          | Some result \<Rightarrow>
                              (case assert_map (map_index result ''header'') of
                                 None \<Rightarrow> (0, log_Println ''Error: header is not a map'' s1)
                               | Some header \<Rightarrow>
                                   (case assert_string (map_index header ''height'') of
                                      None \<Rightarrow> (0, log_Println ''Error: height is not a string'' s1)
                                    | Some heightStr \<Rightarrow>
                                        (case Atoi heightStr of
                                           Inl err \<Rightarrow> (0, log_Printf (''Error converting height to int: %v'' @ NL) [AErr err] s1)
                                         | Inr height \<Rightarrow> (height, s1))))))))"
  using assms
  by (simp add: getHeight_def http_NewRequest_def rpc_request_def Let_def
        cong: sum.case_cong option.case_cong if_cong)

lemma getHeight_success:
  assumes "url_Parse env e = None"
    and "fst (client_Do env (rpc_request env a m e) (world s)) = Inr resp"
    and "StatusCode resp = 200"
    and "ReadAll_Body resp = Inr body"
    and "json_Unmarshal env body = Inr doc"
    and "map_of doc ''result'' = Some (VMap r)"
    and "map_of r ''header'' = Some (VMap h)"
    and "map_of h ''height'' = Some (VString hs)"
    and "Atoi hs = Inr v"
  shows "fst (getHeight env a m e s) = v"
    and "logs (snd (getHeight env a m e s)) = logs s"
  using assms
  by (simp_all add: getHeight_after_Do Let_def StatusOK_def map_index_def)

text \<open>
  C6. Whenever a step of an RPC call fails, getHeight returns 0 and logs one message.
  The steps are: building the request (the endpoint parses as a URL), executing it
  (the client returns a response), the status being 200, reading the body, decoding it
  as JSON, the result field being an object, its header field being an object, its
  height field being a string, and that string converting to an int. A failure is the
  negation of all of them holding together.
\<close>

theorem getHeight_failure:
  assumes "\<not> (\<exists>resp body doc r h hs v.
      url_Parse env e = None \<and>
      fst (client_Do env (rpc_request env a m e) (world s)) = Inr resp \<and>
      StatusCode resp = 200 \<and>
      ReadAll_Body resp = Inr body \<and>
      json_Unmarshal env body = Inr doc \<and>
      map_of doc ''result'' = Some (VMap r) \<and>
      map_of r ''header'' = Some (VMap h) \<and>
      map_of h ''height'' = Some (VString hs) \<and>
      Atoi hs = Inr v)"
  shows "fst (getHeight env a m e s) = 0 \<and>
         (\<exists>l. logs (snd (getHeight env a m e s)) = logs s @ [l])"
proof (cases "url_Parse env e")
  case (Some err)
  then show ?thesis
    by (simp add: getHeight_NewRequest_fails log_Printf_def)
next
  case None
  with assms show ?thesis
    by (auto simp: getHeight_after_Do Let_def StatusOK_def log_Printf_def log_Println_def
          assert_map_index assert_string_index
          split: sum.splits option.splits)
qed

theorem getHeight_failure_witness:
  "fst (client_Do node_404 (rpc_request node_404 ''secret'' ''header.LocalHead''
          ''http://localhost:26658'') (world state0)) =
     Inr \<lparr>StatusCode = 404, Status = ''404 Not Found'', ReadAll_Body = Inr []\<rparr> \<and>
   fst (getHeight node_404 ''secret'' ''header.LocalHead'' ''http://localhost:26658'' state0) = 0 \<and>
   (\<exists>l. logs (snd (getHeight node_404 ''secret'' ''header.LocalHead''
            ''http://localhost:26658'' state0)) = logs state0 @ [l])"
proof -
  let ?e = "''http://localhost:26658''"
  have ans: "fst (client_Do node_404 (rpc_request node_404 ''secret'' ''header.LocalHead'' ?e)
      (world state0)) = Inr \<lparr>StatusCode = 404, Status = ''404 Not Found'', ReadAll_Body = Inr []\<rparr>"
    by (simp add: node_404_def node_env_def)
  have h: "\<not> (\<exists>resp body doc r h hs v.
      url_Parse node_404 ?e = None \<and>
      fst (client_Do node_404 (rpc_request node_404 ''secret'' ''header.LocalHead'' ?e)
            (world state0)) = Inr resp \<and>
      StatusCode resp = 200 \<and>
      ReadAll_Body resp = Inr body \<and>
      json_Unmarshal node_404 body = Inr doc \<and>
      map_of doc ''result'' = Some (VMap r) \<and>
      map_of r ''header'' = Some (VMap h) \<and>
      map_of h ''height'' = Some (VString hs) \<and>
      Atoi hs = Inr v)"
    unfolding ans by auto
  from getHeight_failure [OF h] ans show ?thesis by blast
qed

subsection \<open>Polls\<close>

lemmas example_unfold =
  node_env_def state0_def process_start_def ok_response_def StatusOK_def
  decode_example_def height_body_def height_doc_def quoted_def map_index_def
  Atoi_def is_digit_def float64_def rpc_request_def

lemma Atoi_12345: "Atoi ''12345'' = Inr 12345"
  by (simp add: Atoi_def is_digit_def)

lemma float64_small: "\<bar>n\<bar> < 2 ^ 53 \<Longrightarrow> float64 n = of_int n"
  by (simp add: float64_def)

lemma updateMetrics_localHeight:
  "localHeight (updateMetrics env a e s) = float64 (fst (getHeight env a ''header.LocalHead'' e s))"
  by (simp add: updateMetrics_eq)

lemma updateMetrics_networkHeight:
  "networkHeight (updateMetrics env a e s) =
     float64 (fst (getHeight env a ''header.NetworkHead'' e
                    (snd (getHeight env a ''header.LocalHead'' e s))))"
  by (simp add: updateMetrics_eq)

text \<open>
  C5. When an RPC call of a poll is answered with status 200 and a body that decodes to
  an object whose result.header.height is the string "12345", the gauge of that call
  reads 12345 after the poll: bridge\_local\_height for header.LocalHead,
  bridge\_network\_height for header.NetworkHead (whose request meets the world the
  first call left).
\<close>

theorem height_12345_sets_gauge:
  "(url_Parse env e = None \<and>
    fst (client_Do env (rpc_request env a ''header.LocalHead'' e) (world s)) = Inr resp \<and>
    StatusCode resp = 200 \<and>
    ReadAll_Body resp = Inr body \<and>
    json_Unmarshal env body = Inr doc \<and>
    map_of doc ''result'' = Some (VMap r) \<and>
    map_of r ''header'' = Some (VMap h) \<and>
    map_of h ''height'' = Some (VString ''12345'')
    \<longrightarrow> localHeight (updateMetrics env a e s) = 12345) \<and>
   (url_Parse env e = None \<and>
    fst (client_Do env (rpc_request env a ''header.NetworkHead'' e)
          (world (snd (getHeight env a ''header.LocalHead'' e s)))) = Inr resp' \<and>
    StatusCode resp' = 200 \<and>
    ReadAll_Body resp' = Inr body' \<and>
    json_Unmarshal env body' = Inr doc' \<and>
    map_of doc' ''result'' = Some (VMap r') \<and>
    map_of r' ''header'' = Some (VMap h') \<and>
    map_of h' ''height'' = Some (VString ''12345'')
    \<longrightarrow> networkHeight (updateMetrics env a e s) = 12345)"
proof (intro conjI impI)
  assume "url_Parse env e = None \<and>
    fst (client_Do env (rpc_request env a ''header.LocalHead'' e) (world s)) = Inr resp \<and>
    StatusCode resp = 200 \<and>
    ReadAll_Body resp = Inr body \<and>
    json_Unmarshal env body = Inr doc \<and>
    map_of doc ''result'' = Some (VMap r) \<and>
    map_of r ''header'' = Some (VMap h) \<and>
    map_of h ''height'' = Some (VString ''12345'')"
  then have "fst (getHeight env a ''header.LocalHead'' e s) = 12345"
    using getHeight_success(1) [where v = 12345, OF _ _ _ _ _ _ _ _ Atoi_12345] by blast
  then show "localHeight (updateMetrics env a e s) = 12345"
    by (simp add: updateMetrics_localHeight float64_small)
next
  assume "url_Parse env e = None \<and>
    fst (client_Do env (rpc_request env a ''header.NetworkHead'' e)
          (world (snd (getHeight env a ''header.LocalHead'' e s)))) = Inr resp' \<and>
    StatusCode resp' = 200 \<and>
    ReadAll_Body resp' = Inr body' \<and>
    json_Unmarshal env body' = Inr doc' \<and>
    map_of doc' ''result'' = Some (VMap r') \<and>
    map_of r' ''header'' = Some (VMap h') \<and>
    map_of h' ''height'' = Some (VString ''12345'')"
  then have "fst (getHeight env a ''header.NetworkHead'' e
                   (snd (getHeight env a ''header.LocalHead'' e s))) = 12345"
    using getHeight_success(1) [where v = 12345, OF _ _ _ _ _ _ _ _ Atoi_12345] by blast
  then show "networkHeight (updateMetrics env a e s) = 12345"
    by (simp add: updateMetrics_networkHeight float64_small)
qed

theorem height_12345_sets_gauge_witness:
  "json_Unmarshal node_12345 (height_body ''12345'') = Inr (height_doc ''12345'') \<and>
   localHeight (updateMetrics node_12345 ''secret'' ''http://localhost:26658'' state0) = 12345 \<and>
   networkHeight (updateMetrics node_12345 ''secret'' ''http://localhost:26658'' state0) = 12345"
proof -
  let ?e = "''http://localhost:26658''"
  let ?resp = "ok_response (height_body ''12345'')"
  let ?h = "[(''height'', VString ''12345'')]"
  let ?r = "[(''header'', VMap ?h)]"
  have dec: "json_Unmarshal node_12345 (height_body ''12345'') = Inr (height_doc ''12345'')"
    by (simp add: node_12345_def example_unfold)
  have h1: "url_Parse node_12345 ?e = None \<and>
    fst (client_Do node_12345 (rpc_request node_12345 ''secret'' ''header.LocalHead'' ?e)
          (world state0)) = Inr ?resp \<and>
    StatusCode ?resp = 200 \<and>
    ReadAll_Body ?resp = Inr (height_body ''12345'') \<and>
    json_Unmarshal node_12345 (height_body ''12345'') = Inr (height_doc ''12345'') \<and>
    map_of (height_doc ''12345'') ''result'' = Some (VMap ?r) \<and>
    map_of ?r ''header'' = Some (VMap ?h) \<and>
    map_of ?h ''height'' = Some (VString ''12345'')"
    using dec by (simp add: node_12345_def node_env_def ok_response_def height_doc_def)
  have h2: "url_Parse node_12345 ?e = None \<and>
    fst (client_Do node_12345 (rpc_request node_12345 ''secret'' ''header.NetworkHead'' ?e)
          (world (snd (getHeight node_12345 ''secret'' ''header.LocalHead'' ?e state0)))) = Inr ?resp \<and>
    StatusCode ?resp = 200 \<and>
    ReadAll_Body ?resp = Inr (height_body ''12345'') \<and>
    json_Unmarshal node_12345 (height_body ''12345'') = Inr (height_doc ''12345'') \<and>
    map_of (height_doc ''12345'') ''result'' = Some (VMap ?r) \<and>
    map_of ?r ''header'' = Some (VMap ?h) \<and>
    map_of ?h ''height'' = Some (VString ''12345'')"
    using dec by (simp add: node_12345_def node_env_def ok_response_def height_doc_def)
  from height_12345_sets_gauge [of node_12345 ?e "''secret''" state0 ?resp
      "height_body ''12345''" "height_doc ''12345''" ?r ?h ?resp
      "height_body ''12345''" "height_doc ''12345''" ?r ?h] h1 h2 dec
  show ?thesis by blast
qed

text \<open>
  C7. For each gauge, when the call of one poll yields 100 and the call of the next
  poll yields 105, the gauge reads 100 after the first poll and 105 after the second:
  every update overwrites the value before it.
\<close>

theorem latest_value_wins:
  "(fst (getHeight env a ''header.LocalHead'' e s) = 100 \<and>
    fst (getHeight env a ''header.LocalHead'' e (updateMetrics env a e s)) = 105
    \<longrightarrow> localHeight (updateMetrics env a e s) = 100 \<and>
        localHeight (updateMetrics env a e (updateMetrics env a e s)) = 105) \<and>
   (fst (getHeight env a ''header.NetworkHead'' e
          (snd (getHeight env a ''header.LocalHead'' e s))) = 100 \<and>
    fst (getHeight env a ''header.NetworkHead'' e
          (snd (getHeight env a ''header.LocalHead'' e (updateMetrics env a e s)))) = 105
    \<longrightarrow> networkHeight (updateMetrics env a e s) = 100 \<and>
        networkHeight (updateMetrics env a e (updateMetrics env a e s)) = 105)"
  by (simp add: updateMetrics_localHeight updateMetrics_networkHeight float64_small)

theorem latest_value_wins_witness:
  "localHeight (updateMetrics node_100_then_105 ''secret'' ''http://localhost:26658'' state0) = 100 \<and>
   networkHeight (updateMetrics node_100_then_105 ''secret'' ''http://localhost:26658'' state0) = 100 \<and>
   localHeight (updateMetrics node_100_then_105 ''secret'' ''http://localhost:26658''
     (updateMetrics node_100_then_105 ''secret'' ''http://localhost:26658'' state0)) = 105 \<and>
   networkHeight (updateMetrics node_100_then_105 ''secret'' ''http://localhost:26658''
     (updateMetrics node_100_then_105 ''secret'' ''http://localhost:26658'' state0)) = 105"
proof -
  let ?e = "''http://localhost:26658''"
  let ?E = "node_100_then_105"
  have l1: "fst (getHeight ?E ''secret'' ''header.LocalHead'' ?e state0) = 100"
    by (simp add: node_100_then_105_def getHeight_unfold example_unfold)
  have l2: "fst (getHeight ?E ''secret'' ''header.LocalHead'' ?e
                  (updateMetrics ?E ''secret'' ?e state0)) = 105"
    by (simp add: node_100_then_105_def updateMetrics_def getHeights_def getHeight_unfold
          example_unfold)
  have n1: "fst (getHeight ?E ''secret'' ''header.NetworkHead'' ?e
                  (snd (getHeight ?E ''secret'' ''header.LocalHead'' ?e state0))) = 100"
    by (simp add: node_100_then_105_def getHeight_unfold example_unfold)
  have n2: "fst (getHeight ?E ''secret'' ''header.NetworkHead'' ?e
                  (snd (getHeight ?E ''secret'' ''header.LocalHead'' ?e
                         (updateMetrics ?E ''secret'' ?e state0)))) = 105"
    by (simp add: node_100_then_105_def updateMetrics_def getHeights_def getHeight_unfold
          example_unfold)
  from latest_value_wins [of ?E "''secret''" ?e state0] l1 l2 n1 n2
  show ?thesis by blast
qed

subsection \<open>The poller goroutine and the credential\<close>

lemma poller_loop_sent:
  "sent (poller_loop env a e n s) =
     sent s @
     concat (replicate n
       (case url_Parse env e of
          Some err \<Rightarrow> []
        | None \<Rightarrow> [rpc_request env a ''header.LocalHead'' e,
                    rpc_request env a ''header.NetworkHead'' e]))"
  by (induction n arbitrary: s) (simp_all add: updateMetrics_sent getHeights_sent)

lemma poller_loop_execs [simp]: "execs (poller_loop env a e n s) = execs s"
  by (induction n arbitrary: s) simp_all

lemma getAuthToken_sent [simp]: "sent (snd (getAuthToken env net s)) = sent s"
  by (simp add: getAuthToken_def Let_def log_Printf_def split: option.splits)

lemma getAuthToken_execs [simp]:
  "execs (snd (getAuthToken env net s)) = execs s @ [auth_argv net]"
  by (simp add: getAuthToken_def Let_def log_Printf_def split: option.splits)

lemma getAuthToken_token_ok:
  "exit_err (exec_Command env (auth_argv net)) = None \<Longrightarrow>
   fst (getAuthToken env net s) =
     TrimSpace (fst (CombinedOutput (exec_Command env (auth_argv net))))"
  by (simp add: getAuthToken_def CombinedOutput_def Let_def)

text \<open>
  C8. When the credential command exits with an error, getAuthToken logs it and
  returns the empty string, and the poller goroutine goes on: in each of its
  iterations it sends the two requests (when the endpoint parses as a URL), each with
  the header Authorization: Bearer followed by the empty token.
\<close>

theorem credential_failure_is_not_fatal:
  assumes "exit_err (exec_Command env (auth_argv (p2pNetwork fl))) = Some err"
  shows "fst (getAuthToken env (p2pNetwork fl) s) = [] \<and>
    logs (snd (getAuthToken env (p2pNetwork fl) s)) =
      logs s @
      [Printf (''Error getting auth token: %v, output: %s'' @ NL)
         [AErr err, AStr (fst (CombinedOutput (exec_Command env (auth_argv (p2pNetwork fl)))))]] \<and>
    sent (poller env fl n s) =
      sent s @
      concat (replicate n
        (case url_Parse env (endpoint fl) of
           Some e \<Rightarrow> []
         | None \<Rightarrow> [rpc_request env [] ''header.LocalHead'' (endpoint fl),
                     rpc_request env [] ''header.NetworkHead'' (endpoint fl)])) \<and>
    map_of (req_header (rpc_request env [] m (endpoint fl))) ''Authorization'' =
      Some [''Bearer '']"
proof -
  have tok: "fst (getAuthToken env (p2pNetwork fl) s) = []"
    using assms by (simp add: getAuthToken_def CombinedOutput_def Let_def)
  have lg: "logs (snd (getAuthToken env (p2pNetwork fl) s)) =
      logs s @
      [Printf (''Error getting auth token: %v, output: %s'' @ NL)
         [AErr err, AStr (fst (CombinedOutput (exec_Command env (auth_argv (p2pNetwork fl)))))]]"
    using assms by (simp add: getAuthToken_def CombinedOutput_def Let_def log_Printf_def)
  have snt: "sent (poller env fl n s) =
      sent s @
      concat (replicate n
        (case url_Parse env (endpoint fl) of
           Some e \<Rightarrow> []
         | None \<Rightarrow> [rpc_request env [] ''header.LocalHead'' (endpoint fl),
                     rpc_request env [] ''header.NetworkHead'' (endpoint fl)]))"
    by (simp add: poller_def Let_def poller_loop_sent tok)
  have hdr: "map_of (req_header (rpc_request env [] m (endpoint fl))) ''Authorization'' =
      Some [''Bearer '']"
    by (simp add: rpc_request_def)
  from tok lg snt hdr show ?thesis by blast
qed

theorem credential_failure_is_not_fatal_witness:
  "exit_err (exec_Command node_without_credential (auth_argv (p2pNetwork default_flags))) =
     Some (Err ''exit status 1'') \<and>
   fst (getAuthToken node_without_credential (p2pNetwork default_flags) state0) = [] \<and>
   map (\<lambda>r. map_of (req_header r) ''Authorization'')
     (sent (poller node_without_credential default_flags 2 state0)) =
     replicate 4 (Some [''Bearer ''])"
proof -
  have h: "exit_err (exec_Command node_without_credential (auth_argv (p2pNetwork default_flags))) =
     Some (Err ''exit status 1'')"
    by (simp add: node_without_credential_def node_env_def cmd_fails_def)
  have u: "url_Parse node_without_credential (endpoint default_flags) = None"
    by (simp add: node_without_credential_def node_env_def)
  have s: "sent state0 = []"
    by (simp add: state0_def process_start_def)
  from credential_failure_is_not_fatal [OF h, of state0 2] h
  show ?thesis
    by (simp add: u s rpc_request_def numeral_2_eq_2 numeral_Bit0 [of "num.Bit0 num.One"]
          replicate_add)
qed

text \<open>
  C9, amended. When the credential command succeeds, the token is the trimmed combined
  output of the command, standard output and standard error together in the order they
  were written; the poller goroutine runs the command exactly once, before its loop, and
  every request of every iteration carries that token.
\<close>

theorem token_is_trimmed_combined_output:
  assumes "exit_err (exec_Command env (auth_argv (p2pNetwork fl))) = None"
  shows "fst (getAuthToken env (p2pNetwork fl) s) =
      TrimSpace (concat (map snd (writes (exec_Command env (auth_argv (p2pNetwork fl)))))) \<and>
    execs (poller env fl n s) = execs s @ [auth_argv (p2pNetwork fl)] \<and>
    sent (poller env fl n s) =
      sent s @
      concat (replicate n
        (case url_Parse env (endpoint fl) of
           Some e \<Rightarrow> []
         | None \<Rightarrow>
             [rpc_request env (fst (getAuthToken env (p2pNetwork fl) s))
                ''header.LocalHead'' (endpoint fl),
              rpc_request env (fst (getAuthToken env (p2pNetwork fl) s))
                ''header.NetworkHead'' (endpoint fl)]))"
proof -
  have tok: "fst (getAuthToken env (p2pNetwork fl) s) =
      TrimSpace (concat (map snd (writes (exec_Command env (auth_argv (p2pNetwork fl))))))"
    using assms by (simp add: getAuthToken_def CombinedOutput_def Let_def)
  have ex: "execs (poller env fl n s) = execs s @ [auth_argv (p2pNetwork fl)]"
    by (simp add: poller_def Let_def)
  have snt: "sent (poller env fl n s) =
      sent s @
      concat (replicate n
        (case url_Parse env (endpoint fl) of
           Some e \<Rightarrow> []
         | None \<Rightarrow>
             [rpc_request env (fst (getAuthToken env (p2pNetwork fl) s))
                ''header.LocalHead'' (endpoint fl),
              rpc_request env (fst (getAuthToken env (p2pNetwork fl) s))
                ''header.NetworkHead'' (endpoint fl)]))"
    by (simp add: poller_def Let_def poller_loop_sent)
  from tok ex snt show ?thesis by blast
qed

theorem token_is_trimmed_combined_output_witness:
  "exit_err (exec_Command node_with_warning (auth_argv (p2pNetwork default_flags))) = None \<and>
   fst (getAuthToken node_with_warning (p2pNetwork default_flags) state0) =
     ''warning: config not found'' @ NL @ ''secret'' \<and>
   execs (poller node_with_warning default_flags 3 state0) =
     [[''celestia'', ''bridge'', ''auth'', ''admin'', ''--p2p.network'', ''blockspacerace'']]"
proof -
  have h: "exit_err (exec_Command node_with_warning (auth_argv (p2pNetwork default_flags))) = None"
    by (simp add: node_with_warning_def node_env_def cmd_warns_def)
  have t: "TrimSpace (concat (map snd (writes cmd_warns))) =
      ''warning: config not found'' @ NL @ ''secret''"
    by code_simp
  have c: "\<And>argv. exec_Command node_with_warning argv = cmd_warns"
    by (simp add: node_with_warning_def node_env_def)
  have s: "execs state0 = []"
    by (simp add: state0_def process_start_def)
  from token_is_trimmed_combined_output [OF h, of state0 3] h
  show ?thesis
    by (simp add: c t s auth_argv_def default_flags_def)
qed

text \<open>
  C9 as stated fails: a command that warns on standard error and prints the token on
  standard output succeeds, and the token is not its trimmed standard output.
\<close>

theorem token_is_not_trimmed_stdout:
  "exit_err (exec_Command node_with_warning
      (auth_argv ''blockspacerace'')) = None \<and>
   fst (getAuthToken node_with_warning
      ''blockspacerace'' state0) \<noteq>
   TrimSpace (stdout_of (exec_Command node_with_warning
      (auth_argv ''blockspacerace'')))"
proof -
  have a: "TrimSpace (fst (CombinedOutput cmd_warns)) = ''warning: config not found'' @ NL @ ''secret''"
    by code_simp
  have b: "TrimSpace (stdout_of cmd_warns) = ''secret''"
    by code_simp
  have c: "exit_err cmd_warns = None"
    by (simp add: cmd_warns_def)
  show ?thesis
    using getAuthToken_token_ok [of node_with_warning "''blockspacerace''" state0]
    by (simp add: node_with_warning_def node_env_def a b c NL_def)
qed

end
